theory Spec2Isabelle
  imports Main
begin

section \<open>The input: an XML document as ElementTree presents it\<close>

text \<open>
  \<^verbatim>\<open>generate_database.py\<close> is a straight-line script. It reads the parsed document only
  through \<^verbatim>\<open>find\<close>, \<^verbatim>\<open>findall\<close>, \<^verbatim>\<open>get\<close> and \<^verbatim>\<open>.text\<close>, so an element is its tag, its
  attributes, its text (\<^verbatim>\<open>None\<close> for an element written without text) and its children in
  document order. A Python \<^verbatim>\<open>str\<close> is a \<open>string\<close> holding its UTF-8 bytes; the script only
  compares strings for equality and hands them to \<^verbatim>\<open>int\<close> and to SQLite.
\<close>

datatype element =
  Element (tag: string) (attrib: "(string \<times> string) list")
          (elem_text: "string option") (children: "element list")

text \<open>\<^verbatim>\<open>e.find(t)\<close>: the first direct child with tag \<open>t\<close>, or \<^verbatim>\<open>None\<close>.\<close>

definition find_elem :: "element \<Rightarrow> string \<Rightarrow> element option" where
  "find_elem e t = List.find (\<lambda>c. tag c = t) (children e)"

text \<open>\<^verbatim>\<open>e.findall(t)\<close>: all direct children with tag \<open>t\<close>, in document order.\<close>

definition findall :: "element \<Rightarrow> string \<Rightarrow> element list" where
  "findall e t = filter (\<lambda>c. tag c = t) (children e)"

text \<open>\<^verbatim>\<open>e.get(k)\<close>: the value of attribute \<open>k\<close>, or \<^verbatim>\<open>None\<close>.\<close>

definition get :: "element \<Rightarrow> string \<Rightarrow> string option" where
  "get e k = map_of (attrib e) k"

section \<open>Errors\<close>

text \<open>
  Nothing is caught in the script: every exception ends the run. \<open>IntegrityError\<close> carries
  the constraint of the schema that failed.
\<close>

datatype constraint = NotNull | Unique

datatype error =
    TypeError                    \<comment> \<open>\<^verbatim>\<open>int(None)\<close>\<close>
  | ValueError                   \<comment> \<open>\<^verbatim>\<open>int(s)\<close> for a string that is no integer\<close>
  | OverflowError                \<comment> \<open>a Python int outside SQLite's 64-bit INTEGER\<close>
  | IntegrityError constraint    \<comment> \<open>a NOT NULL or PRIMARY KEY constraint failed\<close>
  | ParseError                   \<comment> \<open>\<^verbatim>\<open>ET.parse\<close> on a file that is no XML document\<close>
  | OSError                      \<comment> \<open>\<^verbatim>\<open>os.remove\<close> on a directory\<close>

section \<open>The database\<close>

text \<open>
  One record per table of lines 34--99, with the columns of the DDL; a column declared
  \<^verbatim>\<open>NOT NULL\<close> holds a value, a nullable one an option. A table is the list of its rows in
  insertion order.
\<close>

record kanji_row =
  k_literal :: string
  k_grade :: "int option"
  k_strokeCount :: "int option"
  k_freq :: "int option"
  k_jlpt :: "int option"

record readings_row =
  r_id :: int
  r_literal :: string
  r_readingType :: string
  r_reading :: string

record meanings_row =
  m_id :: int
  m_literal :: string
  m_meaning :: string

record database =
  kanji :: "kanji_row list"
  readings :: "readings_row list"
  meanings :: "meanings_row list"
  dictionary_metadata :: "(string \<times> string) list"
  room_table_modification_log :: "(int \<times> int) list"
  room_master_table :: "(int \<times> string option) list"

text \<open>
  Lines 34--99: the six \<^verbatim>\<open>CREATE TABLE\<close> statements and the six fixed \<^verbatim>\<open>INSERT\<close>s into the two
  Room tables, on the file that line 30 has just created.
\<close>

definition create_tables :: database where
  "create_tables =
     \<lparr>kanji = [], readings = [], meanings = [], dictionary_metadata = [],
      room_table_modification_log = [(0, 0), (1, 0), (2, 0), (3, 0), (4, 0)],
      room_master_table = [(42, Some ''PLACEHOLDER_HASH'')]\<rparr>"

text \<open>
  The \<^verbatim>\<open>sqlite3\<close> module binds a Python int as a 64-bit INTEGER and raises \<^verbatim>\<open>OverflowError\<close>
  for one that does not fit, before the statement runs.
\<close>

definition sqlite_int_ok :: "int option \<Rightarrow> bool" where
  "sqlite_int_ok v = (case v of None \<Rightarrow> True | Some n \<Rightarrow> - (2 ^ 63) \<le> n \<and> n < 2 ^ 63)"

text \<open>
  Lines 142--145. \<^verbatim>\<open>literal\<close> is \<^verbatim>\<open>TEXT NOT NULL PRIMARY KEY\<close>: a \<^verbatim>\<open>None\<close> and a literal the
  table holds already are refused.
\<close>

definition insert_kanji ::
  "database \<Rightarrow> string option \<Rightarrow> int option \<Rightarrow> int option \<Rightarrow> int option \<Rightarrow> int option
     \<Rightarrow> error + database" where
  "insert_kanji d literal_text grade stroke_count freq jlpt =
     (if \<not> (sqlite_int_ok grade \<and> sqlite_int_ok stroke_count \<and> sqlite_int_ok freq
             \<and> sqlite_int_ok jlpt)
      then Inl OverflowError
      else case literal_text of
        None \<Rightarrow> Inl (IntegrityError NotNull)
      | Some l \<Rightarrow>
          if l \<in> set (map k_literal (kanji d)) then Inl (IntegrityError Unique)
          else Inr (d\<lparr>kanji := kanji d @
                 [\<lparr>k_literal = l, k_grade = grade, k_strokeCount = stroke_count,
                   k_freq = freq, k_jlpt = jlpt\<rparr>]\<rparr>))"

text \<open>
  Lines 156--159. The three columns are \<^verbatim>\<open>NOT NULL\<close>; \<^verbatim>\<open>id\<close> is \<^verbatim>\<open>AUTOINCREMENT\<close>, which
  in a table that only grows numbers the rows from 1.
\<close>

definition insert_reading ::
  "database \<Rightarrow> string option \<Rightarrow> string option \<Rightarrow> string option \<Rightarrow> error + database" where
  "insert_reading d literal_text r_type reading =
     (case (literal_text, r_type, reading) of
        (Some l, Some t, Some r) \<Rightarrow>
          Inr (d\<lparr>readings := readings d @
                 [\<lparr>r_id = int (length (readings d)) + 1, r_literal = l,
                   r_readingType = t, r_reading = r\<rparr>]\<rparr>)
      | _ \<Rightarrow> Inl (IntegrityError NotNull))"

text \<open>Lines 164--167.\<close>

definition insert_meaning ::
  "database \<Rightarrow> string option \<Rightarrow> string option \<Rightarrow> error + database" where
  "insert_meaning d literal_text meaning =
     (case (literal_text, meaning) of
        (Some l, Some m) \<Rightarrow>
          Inr (d\<lparr>meanings := meanings d @
                 [\<lparr>m_id = int (length (meanings d)) + 1, m_literal = l, m_meaning = m\<rparr>]\<rparr>)
      | _ \<Rightarrow> Inl (IntegrityError NotNull))"

text \<open>Lines 178--179: \<^verbatim>\<open>key\<close> is the primary key of \<^verbatim>\<open>dictionary_metadata\<close>.\<close>

definition insert_metadata :: "database \<Rightarrow> string \<Rightarrow> string \<Rightarrow> error + database" where
  "insert_metadata d k v =
     (if k \<in> set (map fst (dictionary_metadata d)) then Inl (IntegrityError Unique)
      else Inr (d\<lparr>dictionary_metadata := dictionary_metadata d @ [(k, v)]\<rparr>))"

section \<open>The cursor\<close>

text \<open>
  All statements go through the one cursor of line 31. The model keeps, beside the
  database the connection sees now, the states it saw before (newest first), so that a
  property of every point of the run is a property of \<open>states\<close>. A statement that raises
  leaves the cursor as it was and ends the run with the error. The commits of lines
  170--174 change nothing the connection sees and the progress lines nothing at all;
  both are left out, and with them the counter that paces them.
\<close>

record cursor =
  db :: database
  seen :: "database list"

definition states :: "cursor \<Rightarrow> database list" where
  "states c = db c # seen c"

type_synonym run = "(error \<times> cursor) + cursor"

definition execute :: "(database \<Rightarrow> error + database) \<Rightarrow> cursor \<Rightarrow> run" where
  "execute stmt c =
     (case stmt (db c) of
        Inl e \<Rightarrow> Inl (e, c)
      | Inr d \<Rightarrow> Inr \<lparr>db = d, seen = db c # seen c\<rparr>)"

section \<open>The extraction pass\<close>

text \<open>
  \<^verbatim>\<open>int\<close> is Python's, not the script's: the pass takes the conversion of a string as the
  parameter \<open>int_of\<close> (\<open>None\<close> where \<^verbatim>\<open>int\<close> raises \<^verbatim>\<open>ValueError\<close>). Lines 125--139, for one of
  the four fields: the first child of that name decides.
\<close>

definition int_field ::
  "(string \<Rightarrow> int option) \<Rightarrow> element \<Rightarrow> string \<Rightarrow> error + int option" where
  "int_field int_of misc name =
     (case find_elem misc name of
        None \<Rightarrow> Inr None
      | Some e \<Rightarrow>
          (case elem_text e of
             None \<Rightarrow> Inl TypeError
           | Some s \<Rightarrow>
               (case int_of s of None \<Rightarrow> Inl ValueError | Some n \<Rightarrow> Inr (Some n))))"

text \<open>Lines 118--139.\<close>

definition extract_misc ::
  "(string \<Rightarrow> int option) \<Rightarrow> element
     \<Rightarrow> error + (int option \<times> int option \<times> int option \<times> int option)" where
  "extract_misc int_of character =
     (case find_elem character ''misc'' of
        None \<Rightarrow> Inr (None, None, None, None)
      | Some misc \<Rightarrow>
          (case int_field int_of misc ''grade'' of
             Inl e \<Rightarrow> Inl e
           | Inr grade \<Rightarrow>
          (case int_field int_of misc ''stroke_count'' of
             Inl e \<Rightarrow> Inl e
           | Inr stroke_count \<Rightarrow>
          (case int_field int_of misc ''freq'' of
             Inl e \<Rightarrow> Inl e
           | Inr freq \<Rightarrow>
          (case int_field int_of misc ''jlpt'' of
             Inl e \<Rightarrow> Inl e
           | Inr jlpt \<Rightarrow> Inr (grade, stroke_count, freq, jlpt))))))"

text \<open>Lines 153--159.\<close>

fun insert_readings :: "cursor \<Rightarrow> string option \<Rightarrow> element list \<Rightarrow> run" where
  "insert_readings c literal_text [] = Inr c"
| "insert_readings c literal_text (reading_elem # rest) =
     (let r_type = get reading_elem ''r_type'' in
      if r_type = Some ''ja_on'' \<or> r_type = Some ''ja_kun'' then
        (case execute (\<lambda>d. insert_reading d literal_text r_type (elem_text reading_elem)) c of
           Inl x \<Rightarrow> Inl x
         | Inr c' \<Rightarrow> insert_readings c' literal_text rest)
      else insert_readings c literal_text rest)"

text \<open>Lines 162--167.\<close>

fun insert_meanings :: "cursor \<Rightarrow> string option \<Rightarrow> element list \<Rightarrow> run" where
  "insert_meanings c literal_text [] = Inr c"
| "insert_meanings c literal_text (meaning_elem # rest) =
     (if get meaning_elem ''m_lang'' = None then
        (case execute (\<lambda>d. insert_meaning d literal_text (elem_text meaning_elem)) c of
           Inl x \<Rightarrow> Inl x
         | Inr c' \<Rightarrow> insert_meanings c' literal_text rest)
      else insert_meanings c literal_text rest)"

text \<open>Lines 110--167: the body of the loop, for one \<^verbatim>\<open>character\<close> element.\<close>

definition process_character :: "(string \<Rightarrow> int option) \<Rightarrow> cursor \<Rightarrow> element \<Rightarrow> run" where
  "process_character int_of c character =
     (case find_elem character ''literal'' of
        None \<Rightarrow> Inr c
      | Some literal \<Rightarrow>
          (let literal_text = elem_text literal in
           case extract_misc int_of character of
             Inl e \<Rightarrow> Inl (e, c)
           | Inr (grade, stroke_count, freq, jlpt) \<Rightarrow>
               (case execute (\<lambda>d. insert_kanji d literal_text grade stroke_count freq jlpt) c of
                  Inl x \<Rightarrow> Inl x
                | Inr c1 \<Rightarrow>
                    (case find_elem character ''reading_meaning'' of
                       None \<Rightarrow> Inr c1
                     | Some reading_meaning \<Rightarrow>
                         (case find_elem reading_meaning ''rmgroup'' of
                            None \<Rightarrow> Inr c1
                          | Some rmgroup \<Rightarrow>
                              (case insert_readings c1 literal_text (findall rmgroup ''reading'') of
                                 Inl x \<Rightarrow> Inl x
                               | Inr c2 \<Rightarrow>
                                   insert_meanings c2 literal_text
                                     (findall rmgroup ''meaning'')))))))"

text \<open>Lines 109--172: the loop over \<^verbatim>\<open>root.findall('character')\<close>.\<close>

fun populate :: "(string \<Rightarrow> int option) \<Rightarrow> cursor \<Rightarrow> element list \<Rightarrow> run" where
  "populate int_of c [] = Inr c"
| "populate int_of c (character # rest) =
     (case process_character int_of c character of
        Inl x \<Rightarrow> Inl x
      | Inr c' \<Rightarrow> populate int_of c' rest)"

text \<open>Lines 178--179.\<close>

definition add_metadata :: "cursor \<Rightarrow> run" where
  "add_metadata c =
     (case execute (\<lambda>d. insert_metadata d ''kanjidic2_version'' ''2025-01'') c of
        Inl x \<Rightarrow> Inl x
      | Inr c' \<Rightarrow> execute (\<lambda>d. insert_metadata d ''dictionary_initialized'' ''true'') c')"

text \<open>
  Lines 34--180 on the parsed document: schema, extraction pass, metadata. The cursor
  starts at the database of line 101, when the tables are created.
\<close>

definition generate :: "(string \<Rightarrow> int option) \<Rightarrow> element \<Rightarrow> run" where
  "generate int_of root =
     (case populate int_of \<lparr>db = create_tables, seen = []\<rparr> (findall root ''character'') of
        Inl x \<Rightarrow> Inl x
      | Inr c \<Rightarrow> add_metadata c)"

text \<open>The cursor a run ends with, completed or not, and the states it went through.\<close>

definition final_cursor :: "run \<Rightarrow> cursor" where
  "final_cursor r = (case r of Inl (e, c) \<Rightarrow> c | Inr c \<Rightarrow> c)"

definition run_states :: "(string \<Rightarrow> int option) \<Rightarrow> element \<Rightarrow> database list" where
  "run_states int_of root = states (final_cursor (generate int_of root))"

section \<open>The program\<close>

text \<open>
  The file system maps a path, as written, to what is there. A database file the run
  did not finish is \<open>IncompleteDb\<close>: what it holds depends on the last commit, which the
  model does not follow.
\<close>

datatype node = Directory | XmlFile element | DbFile database | IncompleteDb | OtherFile

type_synonym fs = "string \<Rightarrow> node option"

datatype status = Exited int | Raised error

text \<open>
  \<open>printed\<close> holds the lines of the validation stage (lines 15, 20 and 23); the progress
  and report lines that follow are not modelled.
\<close>

record result =
  printed :: "string list"
  status :: status
  files :: fs

definition db_file :: string where
  "db_file = ''kanjidic2.db''"

text \<open>
  The whole script, from \<^verbatim>\<open>sys.argv\<close> and the file system. \<^verbatim>\<open>os.remove\<close> and
  \<^verbatim>\<open>sqlite3.connect\<close> (lines 27--30) leave a fresh file at \<open>db_file\<close>; \<^verbatim>\<open>ET.parse\<close> (line 105)
  reads the input after that. The report of lines 184--209 only reads.
\<close>

definition main :: "(string \<Rightarrow> int option) \<Rightarrow> string list \<Rightarrow> fs \<Rightarrow> result" where
  "main int_of argv files0 =
     (if length argv < 2 then
        \<lparr>printed = [''Usage: python3 generate_database.py <kanjidic2.xml>''],
         status = Exited 1, files = files0\<rparr>
      else
        (let xml_file = argv ! 1 in
         if files0 xml_file = None then
           \<lparr>printed = [''Error: File not found: '' @ xml_file],
            status = Exited 1, files = files0\<rparr>
         else
           (let out = [''Generating kanjidic2.db from '' @ xml_file @ ''...''] in
            if files0 db_file = Some Directory then
              \<lparr>printed = out, status = Raised OSError, files = files0\<rparr>
            else
              (let files1 = files0(db_file \<mapsto> IncompleteDb) in
               case files1 xml_file of
                 Some (XmlFile root) \<Rightarrow>
                   (case generate int_of root of
                      Inl (e, c) \<Rightarrow> \<lparr>printed = out, status = Raised e, files = files1\<rparr>
                    | Inr c \<Rightarrow>
                        \<lparr>printed = out, status = Exited 0,
                         files = files1(db_file \<mapsto> DbFile (db c))\<rparr>)
               | _ \<Rightarrow> \<lparr>printed = out, status = Raised ParseError, files = files1\<rparr>))))"

section \<open>A decimal reading of \<^verbatim>\<open>int\<close>\<close>

text \<open>
  For concrete runs: \<^verbatim>\<open>int\<close> on a string of ASCII characters. Blanks around the number are
  dropped, one sign may lead, and single underscores may stand between digits.
\<close>

definition is_space :: "char \<Rightarrow> bool" where
  "is_space ch \<longleftrightarrow> of_char ch \<in> set [9, 10, 11, 12, 13, 28, 29, 30, 31, 32 :: nat]"

definition is_digit :: "char \<Rightarrow> bool" where
  "is_digit ch \<longleftrightarrow> 48 \<le> (of_char ch :: nat) \<and> (of_char ch :: nat) \<le> 57"

definition strip :: "string \<Rightarrow> string" where
  "strip s = rev (dropWhile is_space (rev (dropWhile is_space s)))"

fun digits :: "nat \<Rightarrow> bool \<Rightarrow> string \<Rightarrow> nat option" where
  "digits acc after_digit [] = (if after_digit then Some acc else None)"
| "digits acc after_digit (ch # rest) =
     (if is_digit ch then digits (acc * 10 + (of_char ch - 48)) True rest
      else if ch = CHR ''_'' \<and> after_digit then digits acc False rest
      else None)"

definition py_int :: "string \<Rightarrow> int option" where
  "py_int s =
     (case strip s of
        [] \<Rightarrow> None
      | ch # rest \<Rightarrow>
          if ch = CHR ''-'' then map_option (\<lambda>n. - int n) (digits 0 False rest)
          else if ch = CHR ''+'' then map_option int (digits 0 False rest)
          else map_option int (digits 0 False (ch # rest)))"

section \<open>Input validation\<close>

text \<open>
  C9. With no argument the script prints the usage line and exits with status 1; with a
  path at which nothing exists it prints the error line and exits with status 1. In both
  cases the file system is the one it started with: nothing was created or deleted, the
  exit comes before lines 26--30.
\<close>

theorem validation_exits_before_files:
  "(length argv < 2 \<longrightarrow>
      main int_of argv files0 =
        \<lparr>printed = [''Usage: python3 generate_database.py <kanjidic2.xml>''],
         status = Exited 1, files = files0\<rparr>) \<and>
   (2 \<le> length argv \<and> files0 (argv ! 1) = None \<longrightarrow>
      main int_of argv files0 =
        \<lparr>printed = [''Error: File not found: '' @ argv ! 1],
         status = Exited 1, files = files0\<rparr>)"
  by (simp add: main_def)

theorem validation_exits_before_files_witness:
  "length [''generate_database.py''] < 2 \<and>
   main py_int [''generate_database.py''] (Map.empty(db_file \<mapsto> OtherFile)) =
     \<lparr>printed = [''Usage: python3 generate_database.py <kanjidic2.xml>''],
      status = Exited 1, files = Map.empty(db_file \<mapsto> OtherFile)\<rparr> \<and>
   2 \<le> length [''generate_database.py'', ''missing.xml''] \<and>
   (Map.empty(db_file \<mapsto> OtherFile))
      ([''generate_database.py'', ''missing.xml''] ! 1) = None \<and>
   main py_int [''generate_database.py'', ''missing.xml''] (Map.empty(db_file \<mapsto> OtherFile)) =
     \<lparr>printed = [''Error: File not found: missing.xml''],
      status = Exited 1, files = Map.empty(db_file \<mapsto> OtherFile)\<rparr>"
  using validation_exits_before_files
          [of "[''generate_database.py'']" py_int "Map.empty(db_file \<mapsto> OtherFile)"]
        validation_exits_before_files
          [of "[''generate_database.py'', ''missing.xml'']" py_int
              "Map.empty(db_file \<mapsto> OtherFile)"]
  by (simp add: db_file_def)

end
